theory Spec2Isabelle
  imports Main "HOL-Library.AList"
begin

section \<open>Values, dictionaries and exceptions\<close>

text \<open>
  A pipeline specification is a Python dictionary from field names to JSON-like values
  (what \<^verbatim>\<open>json.loads\<close> produces, or what a caller writes as a literal). A dictionary
  is an association list in insertion order; \<open>map_of\<close> is the lookup and
  \<open>AList.update\<close> is item assignment (an existing key keeps its position, a new key
  is appended), as for a Python \<^verbatim>\<open>dict\<close>. Floating-point numbers are left out.
\<close>

datatype json =
    JNull
  | JBool bool
  | JInt int
  | JStr string
  | JList "json list"
  | JObj "(string \<times> json) list"

type_synonym dict = "(string \<times> json) list"

text \<open>
  An exception is its class name and the text \<^verbatim>\<open>str(e)\<close> gives. All exceptions of
  the model are instances of Python's \<^verbatim>\<open>Exception\<close>, the class the \<^verbatim>\<open>except\<close>
  clauses of the source catch; interrupts of the interpreter are not modelled.
\<close>

datatype exn = Exn (exn_class: string) (exn_str: string)

text \<open>Python truthiness, as used by \<^verbatim>\<open>if not pipeline_name\<close> and \<^verbatim>\<open>if spec\<close>.\<close>

fun py_truthy :: "json \<Rightarrow> bool" where
  "py_truthy JNull = False"
| "py_truthy (JBool b) = b"
| "py_truthy (JInt i) = (i \<noteq> 0)"
| "py_truthy (JStr s) = (s \<noteq> [])"
| "py_truthy (JList xs) = (xs \<noteq> [])"
| "py_truthy (JObj kvs) = (kvs \<noteq> [])"

text \<open>
  \<^verbatim>\<open>d.update(kwargs)\<close>: the items of \<open>kwargs\<close> are assigned into \<open>d\<close> one after the
  other, in the order of \<open>kwargs\<close>.
\<close>

definition dict_update :: "dict \<Rightarrow> dict \<Rightarrow> dict" where
  "dict_update d kwargs = fold (\<lambda>(k, v). AList.update k v) kwargs d"

text \<open>
  The name of the Python type of a value, for the message of the \<^verbatim>\<open>AttributeError\<close>
  raised by \<^verbatim>\<open>.update\<close> on a parsed text that is not a JSON object.
\<close>

fun py_type_name :: "json \<Rightarrow> string" where
  "py_type_name JNull = ''NoneType''"
| "py_type_name (JBool b) = ''bool''"
| "py_type_name (JInt i) = ''int''"
| "py_type_name (JStr s) = ''str''"
| "py_type_name (JList xs) = ''list''"
| "py_type_name (JObj kvs) = ''dict''"

section \<open>The specification argument and its normalisation\<close>

text \<open>
  The \<^verbatim>\<open>spec\<close> argument is \<^verbatim>\<open>Union[Dict[str, Any], str]\<close>. The JSON decoder
  \<^verbatim>\<open>json.loads\<close> belongs to the Python library; it is a parameter \<open>loads\<close> of the model,
  which returns the decoded value or the decoder's exception.
\<close>

datatype spec_arg = SpecDict dict | SpecStr string

text \<open>
  Lines 60-65 of \<^verbatim>\<open>create\<close> and 236-243 of \<^verbatim>\<open>create_or_update\<close>:
  \<^verbatim>\<open>
    if isinstance(spec, str):
        parsed_spec = json.loads(spec)
    else:
        parsed_spec = spec.copy()
    parsed_spec.update(kwargs)
  \<close>
  (\<^verbatim>\<open>create\<close> updates the caller's dictionary in place instead of a copy; the values
  computed are the same.) A decoded text that is not an object has no \<^verbatim>\<open>update\<close>
  method with this meaning: a list, string, number or null raises \<^verbatim>\<open>AttributeError\<close>.
\<close>

definition parse_spec :: "(string \<Rightarrow> exn + json) \<Rightarrow> spec_arg \<Rightarrow> exn + json" where
  "parse_spec loads spec =
     (case spec of
        SpecStr text \<Rightarrow> loads text
      | SpecDict d \<Rightarrow> Inr (JObj d))"

definition merge_kwargs :: "json \<Rightarrow> dict \<Rightarrow> exn + dict" where
  "merge_kwargs parsed kwargs =
     (case parsed of
        JObj d \<Rightarrow> Inr (dict_update d kwargs)
      | other \<Rightarrow> Inl (Exn ''AttributeError''
          ([CHR 0x27] @ py_type_name other @ [CHR 0x27] @
           '' object has no attribute 'update'' @ [CHR 0x27])))"

definition normalize_spec :: "(string \<Rightarrow> exn + json) \<Rightarrow> spec_arg \<Rightarrow> dict \<Rightarrow> exn + dict" where
  "normalize_spec loads spec kwargs =
     (case parse_spec loads spec of
        Inl e \<Rightarrow> Inl e
      | Inr parsed \<Rightarrow> merge_kwargs parsed kwargs)"

section \<open>The client facade and the log of calls\<close>

text \<open>
  The code reads two attributes of each listed pipeline, \<^verbatim>\<open>name\<close> and
  \<^verbatim>\<open>pipeline_id\<close>.
\<close>

record pipeline_info =
  name :: string
  pipeline_id :: string

text \<open>
  The remote client is not part of the repository. It is a record of operations over a
  remote state \<open>'s\<close>; each operation returns its result, or the exception it raises, and
  the new remote state. \<^verbatim>\<open>client.pipelines.create\<close> returns an object of which the
  code reads \<^verbatim>\<open>pipeline_id\<close>.
\<close>

record 's facade =
  pipelines_list_pipelines :: "'s \<Rightarrow> (exn + pipeline_info list) \<times> 's"
  pipelines_create :: "dict \<Rightarrow> 's \<Rightarrow> (exn + string) \<times> 's"
  pipelines_update :: "dict \<Rightarrow> 's \<Rightarrow> (exn + unit) \<times> 's"

text \<open>Every call on the client, and every \<^verbatim>\<open>time.sleep\<close>, is logged in order.\<close>

datatype call =
    ListPipelines
  | Create dict
  | Update dict
  | Stop string
  | GetUpdate string string
  | GetRun int
  | CancelRun int
  | Sleep int
  | WorkspaceExport string string
  | WorkspaceImport string string string bool "string option"

record 's world =
  calls :: "call list"
  remote :: "'s"

definition call_list_pipelines :: "'s facade \<Rightarrow> 's world \<Rightarrow> (exn + pipeline_info list) \<times> 's world" where
  "call_list_pipelines F w =
     (case pipelines_list_pipelines F (remote w) of
        (r, s') \<Rightarrow> (r, \<lparr>calls = calls w @ [ListPipelines], remote = s'\<rparr>))"

definition call_create :: "'s facade \<Rightarrow> dict \<Rightarrow> 's world \<Rightarrow> (exn + string) \<times> 's world" where
  "call_create F kw w =
     (case pipelines_create F kw (remote w) of
        (r, s') \<Rightarrow> (r, \<lparr>calls = calls w @ [Create kw], remote = s'\<rparr>))"

definition call_update :: "'s facade \<Rightarrow> dict \<Rightarrow> 's world \<Rightarrow> (exn + unit) \<times> 's world" where
  "call_update F kw w =
     (case pipelines_update F kw (remote w) of
        (r, s') \<Rightarrow> (r, \<lparr>calls = calls w @ [Update kw], remote = s'\<rparr>))"

section \<open>\<^verbatim>\<open>create_or_update\<close>\<close>

text \<open>
  The scan of lines 253-258: the first pipeline whose name equals the name of the
  specification. The listed name is a string, so it equals the specification's value only
  when that value is the same string.
\<close>

fun existing_pipeline :: "json \<Rightarrow> pipeline_info list \<Rightarrow> pipeline_info option" where
  "existing_pipeline pipeline_name [] = None"
| "existing_pipeline pipeline_name (pipeline # rest) =
     (if JStr (name pipeline) = pipeline_name then Some pipeline
      else existing_pipeline pipeline_name rest)"

text \<open>
  The body of the \<^verbatim>\<open>try\<close> block, lines 252-275. An exception of the facade leaves the
  block at the call that raised it. A pipeline object that was found is truthy, so
  \<^verbatim>\<open>if existing_pipeline\<close> is the test whether the scan found one.
\<close>

definition try_block :: "'s facade \<Rightarrow> dict \<Rightarrow> json \<Rightarrow> 's world \<Rightarrow> (exn + string \<times> bool) \<times> 's world" where
  "try_block F parsed_spec pipeline_name w =
     (case call_list_pipelines F w of
        (Inl e, w1) \<Rightarrow> (Inl e, w1)
      | (Inr all_pipelines, w1) \<Rightarrow>
          (case existing_pipeline pipeline_name all_pipelines of
             Some existing \<Rightarrow>
               (let update_spec = AList.update ''pipeline_id'' (JStr (pipeline_id existing)) parsed_spec
                in case call_update F update_spec w1 of
                     (Inl e, w2) \<Rightarrow> (Inl e, w2)
                   | (Inr u, w2) \<Rightarrow> (Inr (pipeline_id existing, False), w2))
           | None \<Rightarrow>
               (case call_create F parsed_spec w1 of
                  (Inl e, w2) \<Rightarrow> (Inl e, w2)
                | (Inr new_id, w2) \<Rightarrow> (Inr (new_id, True), w2))))"

definition name_missing :: exn where
  "name_missing = Exn ''ValueError'' ''Pipeline spec must include 'name' field''"

definition reconcile_failed :: "exn \<Rightarrow> exn" where
  "reconcile_failed e =
     Exn ''RuntimeError'' (''Failed to determine if pipeline exists: '' @ exn_str e)"

definition create_or_update ::
  "(string \<Rightarrow> exn + json) \<Rightarrow> 's facade \<Rightarrow> spec_arg \<Rightarrow> dict \<Rightarrow> 's world
     \<Rightarrow> (exn + string \<times> bool) \<times> 's world" where
  "create_or_update loads F spec kwargs w =
     (case normalize_spec loads spec kwargs of
        Inl e \<Rightarrow> (Inl e, w)
      | Inr parsed_spec \<Rightarrow>
          (case map_of parsed_spec ''name'' of
             None \<Rightarrow> (Inl name_missing, w)
           | Some pipeline_name \<Rightarrow>
               if \<not> py_truthy pipeline_name then (Inl name_missing, w)
               else
                 (case try_block F parsed_spec pipeline_name w of
                    (Inl e, w') \<Rightarrow> (Inl (reconcile_failed e), w')
                  | (Inr result, w') \<Rightarrow> (Inr result, w'))))"

section \<open>\<^verbatim>\<open>create\<close> and \<^verbatim>\<open>update\<close>\<close>

text \<open>\<^verbatim>\<open>create\<close>, lines 60-70: normalise, then one create call with the merged fields.\<close>

definition create ::
  "(string \<Rightarrow> exn + json) \<Rightarrow> 's facade \<Rightarrow> spec_arg \<Rightarrow> dict \<Rightarrow> 's world
     \<Rightarrow> (exn + string) \<times> 's world" where
  "create loads F spec kwargs w =
     (case normalize_spec loads spec kwargs of
        Inl e \<Rightarrow> (Inl e, w)
      | Inr merged \<Rightarrow> call_create F merged w)"

text \<open>
  \<^verbatim>\<open>update\<close>, lines 171-182. The specification is optional and is used only when it is
  truthy (not \<^verbatim>\<open>None\<close>, not the empty text, not the empty dictionary); otherwise the
  base is the empty dictionary. After the merge, \<^verbatim>\<open>pipeline_id\<close> is assigned.
\<close>

definition update_base :: "(string \<Rightarrow> exn + json) \<Rightarrow> spec_arg option \<Rightarrow> exn + json" where
  "update_base loads spec =
     (case spec of
        None \<Rightarrow> Inr (JObj [])
      | Some (SpecStr text) \<Rightarrow> if text = [] then Inr (JObj []) else loads text
      | Some (SpecDict d) \<Rightarrow> if d = [] then Inr (JObj []) else Inr (JObj d))"

definition update' ::
  "(string \<Rightarrow> exn + json) \<Rightarrow> 's facade \<Rightarrow> string \<Rightarrow> spec_arg option \<Rightarrow> dict \<Rightarrow> 's world
     \<Rightarrow> (exn + unit) \<times> 's world" where
  "update' loads F pid spec kwargs w =
     (case update_base loads spec of
        Inl e \<Rightarrow> (Inl e, w)
      | Inr parsed \<Rightarrow>
          (case merge_kwargs parsed kwargs of
             Inl e \<Rightarrow> (Inl e, w)
           | Inr update_spec \<Rightarrow>
               call_update F (AList.update ''pipeline_id'' (JStr pid) update_spec) w))"

section \<open>Rendering integers\<close>

text \<open>\<^verbatim>\<open>str\<close> of a Python integer, as the f-strings of the messages use it.\<close>

fun digits10 :: "nat \<Rightarrow> string" where
  "digits10 n =
     (if n < 10 then [char_of (48 + n)]
      else digits10 (n div 10) @ [char_of (48 + n mod 10)])"

declare digits10.simps [simp del]

definition py_str_int :: "int \<Rightarrow> string" where
  "py_str_int i = (if i < 0 then CHR ''-'' # digits10 (nat (- i)) else digits10 (nat i))"

text \<open>
  The conversion of an integer to text, in \<^verbatim>\<open>str\<close> and in an f-string, raises
  \<^verbatim>\<open>ValueError\<close> when the integer has more than 4300 digits (the default of
  \<^verbatim>\<open>sys.set_int_max_str_digits\<close>).
\<close>

definition max_str_digits :: nat where
  "max_str_digits = 4300"

definition int_digits :: "int \<Rightarrow> nat" where
  "int_digits i = length (digits10 (nat \<bar>i\<bar>))"

definition digits_error :: exn where
  "digits_error =
     Exn ''ValueError''
       (''Exceeds the limit (4300 digits) for integer string conversion; ''
          @ ''use sys.set_int_max_str_digits() to increase the limit'')"

definition py_format_int :: "int \<Rightarrow> exn + string" where
  "py_format_int i =
     (if max_str_digits < int_digits i then Inl digits_error else Inr (py_str_int i))"

section \<open>A substitute facade\<close>

text \<open>
  An in-memory stand-in for the remote platform, used to run the functions on concrete
  inputs: the remote state is the list of pipelines, a created pipeline is appended under
  a fresh identifier, an update renames the pipeline it addresses.
\<close>

definition spec_name :: "dict \<Rightarrow> string" where
  "spec_name kw = (case map_of kw ''name'' of Some (JStr n) \<Rightarrow> n | _ \<Rightarrow> [])"

definition renamed :: "dict \<Rightarrow> pipeline_info \<Rightarrow> pipeline_info" where
  "renamed kw p =
     (if map_of kw ''pipeline_id'' = Some (JStr (pipeline_id p))
      then p\<lparr>name := spec_name kw\<rparr> else p)"

definition store_facade :: "pipeline_info list facade" where
  "store_facade =
     \<lparr>pipelines_list_pipelines = (\<lambda>s. (Inr s, s)),
      pipelines_create = (\<lambda>kw s.
         (Inr (''id-'' @ digits10 (length s)),
          s @ [\<lparr>name = spec_name kw, pipeline_id = ''id-'' @ digits10 (length s)\<rparr>])),
      pipelines_update = (\<lambda>kw s. (Inr (), map (renamed kw) s))\<rparr>"

text \<open>A facade that is unreachable: every operation raises.\<close>

definition down_facade :: "unit facade" where
  "down_facade =
     \<lparr>pipelines_list_pipelines = (\<lambda>s. (Inl (Exn ''ConnectionError'' ''connection refused''), s)),
      pipelines_create = (\<lambda>kw s. (Inl (Exn ''ConnectionError'' ''connection refused''), s)),
      pipelines_update = (\<lambda>kw s. (Inl (Exn ''ConnectionError'' ''connection refused''), s))\<rparr>"

text \<open>A facade that lists a fixed catalogue and rejects every write.\<close>

definition read_only_facade :: "pipeline_info list \<Rightarrow> unit facade" where
  "read_only_facade catalogue =
     \<lparr>pipelines_list_pipelines = (\<lambda>s. (Inr catalogue, s)),
      pipelines_create = (\<lambda>kw s. (Inl (Exn ''PermissionDenied'' ''no write access''), s)),
      pipelines_update = (\<lambda>kw s. (Inl (Exn ''PermissionDenied'' ''no write access''), s))\<rparr>"

text \<open>
  A small decoder for the example inputs: it knows the empty object and the text of an
  object with the keys \<open>a\<close> and \<open>b\<close>, and rejects the rest.
\<close>

definition ab_text :: string where
  "ab_text =
     ''{'' @ [CHR 0x22] @ ''a'' @ [CHR 0x22] @ '': 1, '' @ [CHR 0x22] @ ''b'' @ [CHR 0x22] @ '': 5}''"

definition ab_dict :: dict where
  "ab_dict = [(''a'', JInt 1), (''b'', JInt 5)]"

definition toy_loads :: "string \<Rightarrow> exn + json" where
  "toy_loads text =
     (if text = ''{}'' then Inr (JObj [])
      else if text = ab_text then Inr (JObj ab_dict)
      else Inl (Exn ''JSONDecodeError'' ''Expecting value''))"

text \<open>Concrete inputs for the runs below.\<close>

definition p1_spec :: dict where
  "p1_spec = [(''name'', JStr ''p1''), (''storage'', JStr ''/x'')]"

definition p1_spec_y :: dict where
  "p1_spec_y = [(''name'', JStr ''p1''), (''storage'', JStr ''/y'')]"

definition two_pipelines :: "pipeline_info list" where
  "two_pipelines = [\<lparr>name = ''p0'', pipeline_id = ''id-0''\<rparr>, \<lparr>name = ''p1'', pipeline_id = ''id-1''\<rparr>]"

section \<open>The pollers \<^verbatim>\<open>wait_for_update\<close> and \<^verbatim>\<open>wait_for_run\<close>\<close>

text \<open>
  What the client returns from a fetch is a Python object of the client library, which is
  not part of the repository. The code reads attributes of it: \<^verbatim>\<open>update.state.value\<close>
  and \<^verbatim>\<open>run.state.life_cycle_state\<close>. An object is its class name and its attributes;
  a member of a plain \<^verbatim>\<open>Enum\<close> is its class and its name, which is also its
  \<^verbatim>\<open>value\<close> (as in \<^verbatim>\<open>COMPLETED = 'COMPLETED'\<close>). Reading an attribute that the
  object does not have raises \<^verbatim>\<open>AttributeError\<close>.
\<close>

datatype py =
    PyNone
  | PyStr string
  | PyEnum string string
  | PyObj string "(string \<times> py) list"

definition attribute_error :: "string \<Rightarrow> string \<Rightarrow> exn" where
  "attribute_error cls a =
     Exn ''AttributeError''
       ([CHR 0x27] @ cls @ [CHR 0x27] @ '' object has no attribute '' @ [CHR 0x27] @ a @ [CHR 0x27])"

fun py_getattr :: "py \<Rightarrow> string \<Rightarrow> exn + py" where
  "py_getattr (PyObj cls attrs) a =
     (case map_of attrs a of Some v \<Rightarrow> Inr v | None \<Rightarrow> Inl (attribute_error cls a))"
| "py_getattr (PyEnum cls member) a =
     (if a = ''value'' \<or> a = ''name'' then Inr (PyStr member) else Inl (attribute_error cls a))"
| "py_getattr PyNone a = Inl (attribute_error ''NoneType'' a)"
| "py_getattr (PyStr s) a = Inl (attribute_error ''str'' a)"

text \<open>\<^verbatim>\<open>update.state.value\<close> and \<^verbatim>\<open>run.state.life_cycle_state\<close>.\<close>

definition update_state_value :: "py \<Rightarrow> exn + py" where
  "update_state_value upd =
     (case py_getattr upd ''state'' of
        Inl e \<Rightarrow> Inl e
      | Inr st \<Rightarrow> py_getattr st ''value'')"

definition run_life_cycle_state :: "py \<Rightarrow> exn + py" where
  "run_life_cycle_state r =
     (case py_getattr r ''state'' of
        Inl e \<Rightarrow> Inl e
      | Inr st \<Rightarrow> py_getattr st ''life_cycle_state'')"

text \<open>
  \<^verbatim>\<open>x in [...]\<close> for a list of string literals: the test is \<^verbatim>\<open>==\<close> with each string,
  and only a string equals a string; a member of a plain \<^verbatim>\<open>Enum\<close>, \<^verbatim>\<open>None\<close> and
  an object do not.
\<close>

fun py_in_strings :: "py \<Rightarrow> string list \<Rightarrow> bool" where
  "py_in_strings (PyStr s) xs = (s \<in> set xs)"
| "py_in_strings PyNone xs = False"
| "py_in_strings (PyEnum cls member) xs = False"
| "py_in_strings (PyObj cls attrs) xs = False"


text \<open>
  \<^verbatim>\<open>time.sleep\<close> on an integer: the number of seconds is converted to nanoseconds in 64
  bits, which raises \<^verbatim>\<open>OverflowError\<close> beyond 9223372036 seconds in either direction;
  then a negative argument raises \<^verbatim>\<open>ValueError\<close>; otherwise the sleep is logged. Time
  is simulated: nothing else happens while sleeping.
\<close>

definition max_sleep :: int where
  "max_sleep = 9223372036"

definition time_sleep :: "int \<Rightarrow> 's world \<Rightarrow> (exn + unit) \<times> 's world" where
  "time_sleep seconds w =
     (if seconds < - max_sleep \<or> max_sleep < seconds
      then (Inl (Exn ''OverflowError'' ''timestamp too large to convert to C _PyTime_t''), w)
      else if seconds < 0
      then (Inl (Exn ''ValueError'' ''sleep length must be non-negative''), w)
      else (Inr (), \<lparr>calls = calls w @ [Sleep seconds], remote = remote w\<rparr>))"

text \<open>
  The literal lists of terminal states, and the exception in which each of the two
  \<^verbatim>\<open>raise TimeoutError(...)\<close> statements ends: the \<^verbatim>\<open>TimeoutError\<close>, or the
  \<^verbatim>\<open>ValueError\<close> of an integer too long to be put into the message.
\<close>

definition terminal_update_states :: "string list" where
  "terminal_update_states = [''COMPLETED'', ''FAILED'', ''CANCELED'']"

definition terminal_run_states :: "string list" where
  "terminal_run_states = [''TERMINATED'', ''SKIPPED'', ''INTERNAL_ERROR'']"

definition update_timed_out :: "string \<Rightarrow> int \<Rightarrow> exn" where
  "update_timed_out uid timeout_seconds =
     (case py_format_int timeout_seconds of
        Inl e \<Rightarrow> e
      | Inr t \<Rightarrow>
          Exn ''TimeoutError''
            (''Pipeline update '' @ uid @ '' did not complete within '' @ t @ '' seconds''))"

definition run_timed_out :: "int \<Rightarrow> int \<Rightarrow> exn" where
  "run_timed_out rid timeout_seconds =
     (case py_format_int rid of
        Inl e \<Rightarrow> e
      | Inr r \<Rightarrow>
          (case py_format_int timeout_seconds of
             Inl e \<Rightarrow> e
           | Inr t \<Rightarrow>
               Exn ''TimeoutError''
                 (''Job run '' @ r @ '' did not complete within '' @ t @ '' seconds'')))"

text \<open>
  The loop of \<^verbatim>\<open>wait_for_update\<close>, lines 494-510, from a given value of \<^verbatim>\<open>elapsed\<close>.
  The loop need not end, so its result is optional: \<open>None\<close> is a run that never returns.
  \<open>pipelines_get_update\<close> is \<^verbatim>\<open>client.pipelines.get_update\<close>. The loop is not inside a
  \<^verbatim>\<open>try\<close>: an exception of the client, of the attribute reads or of the sleep leaves the
  function.
\<close>

partial_function (option) wait_for_update_loop ::
  "(string \<Rightarrow> string \<Rightarrow> 's \<Rightarrow> (exn + py) \<times> 's) \<Rightarrow> string \<Rightarrow> string
     \<Rightarrow> int \<Rightarrow> int \<Rightarrow> int \<Rightarrow> 's world \<Rightarrow> ((exn + py) \<times> 's world) option" where
  "wait_for_update_loop pipelines_get_update pid uid timeout_seconds poll_interval_seconds elapsed w =
     (if elapsed < timeout_seconds then
        (case pipelines_get_update pid uid (remote w) of
           (Inl e, s') \<Rightarrow> Some (Inl e, \<lparr>calls = calls w @ [GetUpdate pid uid], remote = s'\<rparr>)
         | (Inr upd, s') \<Rightarrow>
             (case update_state_value upd of
                Inl e \<Rightarrow> Some (Inl e, \<lparr>calls = calls w @ [GetUpdate pid uid], remote = s'\<rparr>)
              | Inr v \<Rightarrow>
                  if py_in_strings v terminal_update_states
                  then Some (Inr upd, \<lparr>calls = calls w @ [GetUpdate pid uid], remote = s'\<rparr>)
                  else
                    (case time_sleep poll_interval_seconds
                            \<lparr>calls = calls w @ [GetUpdate pid uid], remote = s'\<rparr> of
                       (Inl e, w') \<Rightarrow> Some (Inl e, w')
                     | (Inr u, w') \<Rightarrow>
                         wait_for_update_loop pipelines_get_update pid uid timeout_seconds
                           poll_interval_seconds (elapsed + poll_interval_seconds) w')))
      else Some (Inl (update_timed_out uid timeout_seconds), w))"

declare wait_for_update_loop.simps [code]

definition wait_for_update ::
  "(string \<Rightarrow> string \<Rightarrow> 's \<Rightarrow> (exn + py) \<times> 's) \<Rightarrow> string \<Rightarrow> string
     \<Rightarrow> int \<Rightarrow> int \<Rightarrow> 's world \<Rightarrow> ((exn + py) \<times> 's world) option" where
  "wait_for_update pipelines_get_update pid uid timeout_seconds poll_interval_seconds w =
     wait_for_update_loop pipelines_get_update pid uid timeout_seconds poll_interval_seconds 0 w"

text \<open>The loop of \<^verbatim>\<open>wait_for_run\<close>, jobs.py lines 37-49; \<open>jobs_get_run\<close> is
  \<^verbatim>\<open>client.jobs.get_run\<close>.\<close>

partial_function (option) wait_for_run_loop ::
  "(int \<Rightarrow> 's \<Rightarrow> (exn + py) \<times> 's) \<Rightarrow> int
     \<Rightarrow> int \<Rightarrow> int \<Rightarrow> int \<Rightarrow> 's world \<Rightarrow> ((exn + py) \<times> 's world) option" where
  "wait_for_run_loop jobs_get_run rid timeout_seconds poll_interval_seconds elapsed w =
     (if elapsed < timeout_seconds then
        (case jobs_get_run rid (remote w) of
           (Inl e, s') \<Rightarrow> Some (Inl e, \<lparr>calls = calls w @ [GetRun rid], remote = s'\<rparr>)
         | (Inr r, s') \<Rightarrow>
             (case run_life_cycle_state r of
                Inl e \<Rightarrow> Some (Inl e, \<lparr>calls = calls w @ [GetRun rid], remote = s'\<rparr>)
              | Inr v \<Rightarrow>
                  if py_in_strings v terminal_run_states
                  then Some (Inr r, \<lparr>calls = calls w @ [GetRun rid], remote = s'\<rparr>)
                  else
                    (case time_sleep poll_interval_seconds
                            \<lparr>calls = calls w @ [GetRun rid], remote = s'\<rparr> of
                       (Inl e, w') \<Rightarrow> Some (Inl e, w')
                     | (Inr u, w') \<Rightarrow>
                         wait_for_run_loop jobs_get_run rid timeout_seconds
                           poll_interval_seconds (elapsed + poll_interval_seconds) w')))
      else Some (Inl (run_timed_out rid timeout_seconds), w))"

declare wait_for_run_loop.simps [code]

definition wait_for_run ::
  "(int \<Rightarrow> 's \<Rightarrow> (exn + py) \<times> 's) \<Rightarrow> int
     \<Rightarrow> int \<Rightarrow> int \<Rightarrow> 's world \<Rightarrow> ((exn + py) \<times> 's world) option" where
  "wait_for_run jobs_get_run rid timeout_seconds poll_interval_seconds w =
     wait_for_run_loop jobs_get_run rid timeout_seconds poll_interval_seconds 0 w"

text \<open>
  Facades that answer from a script: the remote state counts the fetches made so far, and
  fetch number \<open>n\<close> (from 0) returns \<open>statuses n\<close>. Every sequence of statuses is the
  script of such a facade.
\<close>

definition scripted_get_update ::
  "(nat \<Rightarrow> exn + py) \<Rightarrow> string \<Rightarrow> string \<Rightarrow> nat \<Rightarrow> (exn + py) \<times> nat" where
  "scripted_get_update statuses pid uid n = (statuses n, Suc n)"

definition scripted_get_run ::
  "(nat \<Rightarrow> exn + py) \<Rightarrow> int \<Rightarrow> nat \<Rightarrow> (exn + py) \<times> nat" where
  "scripted_get_run statuses rid n = (statuses n, Suc n)"

text \<open>
  Objects of a substitute client: an update whose \<^verbatim>\<open>state\<close> is a member of an
  enumeration, and a run whose \<^verbatim>\<open>state.life_cycle_state\<close> is a string. Scripts: never
  terminal, and terminal from the second fetch on.
\<close>

definition update_object :: "string \<Rightarrow> py" where
  "update_object st =
     PyObj ''UpdateInfo'' [(''update_id'', PyStr ''u1''), (''state'', PyEnum ''UpdateInfoState'' st)]"










text \<open>
  Objects shaped as those of the client library that the source imports
  (\<^verbatim>\<open>databricks.sdk\<close>): the life-cycle state of a \<^verbatim>\<open>Run\<close> is a member of the plain
  enumeration \<^verbatim>\<open>RunLifeCycleState\<close>, and the response of \<^verbatim>\<open>get_update\<close> holds the
  update under the attribute \<^verbatim>\<open>update\<close>.
\<close>

definition sdk_run :: "string \<Rightarrow> py" where
  "sdk_run st =
     PyObj ''Run''
       [(''state'', PyObj ''RunState'' [(''life_cycle_state'', PyEnum ''RunLifeCycleState'' st)])]"

definition sdk_get_update_response :: "string \<Rightarrow> py" where
  "sdk_get_update_response st = PyObj ''GetUpdateResponse'' [(''update'', update_object st)]"

definition sdk_runs_terminated :: "nat \<Rightarrow> exn + py" where
  "sdk_runs_terminated n = Inr (sdk_run ''TERMINATED'')"

definition sdk_updates_completed :: "nat \<Rightarrow> exn + py" where
  "sdk_updates_completed n = Inr (sdk_get_update_response ''COMPLETED'')"

definition fresh :: "nat world" where
  "fresh = \<lparr>calls = [], remote = 0\<rparr>"

section \<open>A facade that keeps what it is given\<close>

text \<open>
  The facades in which a created pipeline is visible to later listings and nothing is
  deleted or changed from outside: the remote state has a catalogue \<open>view\<close> of pipelines;
  a listing returns the catalogue and leaves it as it is, a successful create inserts the
  new pipeline, under the name of the specification and the returned identifier, somewhere
  into the catalogue, and a successful update renames the pipeline it addresses and keeps
  the order. Calls that raise are not constrained.
\<close>

definition catalogue_facade :: "'s facade \<Rightarrow> ('s \<Rightarrow> pipeline_info list) \<Rightarrow> bool" where
  "catalogue_facade F view \<longleftrightarrow>
     (\<forall>s ps s'. pipelines_list_pipelines F s = (Inr ps, s') \<longrightarrow> ps = view s \<and> view s' = view s)
   \<and> (\<forall>kw s new_id s'. pipelines_create F kw s = (Inr new_id, s') \<longrightarrow>
          (\<exists>before after. view s = before @ after
             \<and> view s' = before @ \<lparr>name = spec_name kw, pipeline_id = new_id\<rparr> # after))
   \<and> (\<forall>kw s u s'. pipelines_update F kw s = (Inr u, s') \<longrightarrow>
          view s' = map (renamed kw) (view s))"

section \<open>Notebook export and import\<close>

text \<open>
  What the two functions use and the repository does not contain: \<^verbatim>\<open>str.upper\<close> of
  the Python library, the member names of the enumerations \<^verbatim>\<open>ExportFormat\<close> and
  \<^verbatim>\<open>Language\<close>, the workspace operations of the client, the file system (\<^verbatim>\<open>Path(...).parent\<close>, \<^verbatim>\<open>mkdir(parents=True, exist_ok=True)\<close>,
  writing and reading a file) and base64. Each operation that can raise returns its
  exception or its result, with the new remote state or file system.
\<close>

record ('s, 'f) notebook_env =
  str_upper :: "string \<Rightarrow> string"
  export_formats :: "string list"
  languages :: "string list"
  workspace_export :: "string \<Rightarrow> string \<Rightarrow> 's \<Rightarrow> (exn + string option) \<times> 's"
  workspace_import :: "string \<Rightarrow> string \<Rightarrow> string \<Rightarrow> bool \<Rightarrow> string option \<Rightarrow> 's \<Rightarrow> (exn + unit) \<times> 's"
  path_parent :: "string \<Rightarrow> string"
  mkdir_parents :: "string \<Rightarrow> 'f \<Rightarrow> (exn + unit) \<times> 'f"
  write_file :: "string \<Rightarrow> string \<Rightarrow> 'f \<Rightarrow> (exn + unit) \<times> 'f"
  read_file :: "string \<Rightarrow> 'f \<Rightarrow> (exn + string) \<times> 'f"
  b64decode :: "string \<Rightarrow> exn + string"
  b64encode :: "string \<Rightarrow> string"

record ('s, 'f) disk_world = "'s world" +
  files :: "'f"

definition key_error :: "string \<Rightarrow> exn" where
  "key_error k = Exn ''KeyError'' ([CHR 0x27] @ k @ [CHR 0x27])"

text \<open>
  The body of the \<^verbatim>\<open>try\<close> block of \<^verbatim>\<open>export_notebook\<close>, workspace.py lines 80-98. The
  result is the value returned, or the exception that left the block.
\<close>

definition export_notebook_try ::
  "('s, 'f) notebook_env \<Rightarrow> string \<Rightarrow> string \<Rightarrow> string \<Rightarrow> ('s, 'f) disk_world
     \<Rightarrow> (exn + bool) \<times> ('s, 'f) disk_world" where
  "export_notebook_try E workspace_path local_path format w =
     (if str_upper E format \<notin> set (export_formats E)
      then (Inl (key_error (str_upper E format)), w)
      else
        (case workspace_export E workspace_path (str_upper E format) (remote w) of
           (r, s') \<Rightarrow>
             (let w1 = w\<lparr>calls := calls w @ [WorkspaceExport workspace_path (str_upper E format)],
                         remote := s'\<rparr>
              in case r of
                   Inl e \<Rightarrow> (Inl e, w1)
                 | Inr content \<Rightarrow>
                     (case mkdir_parents E (path_parent E local_path) (files w1) of
                        (Inl e, fs1) \<Rightarrow> (Inl e, w1\<lparr>files := fs1\<rparr>)
                      | (Inr u, fs1) \<Rightarrow>
                          (case content of
                             None \<Rightarrow> (Inr False, w1\<lparr>files := fs1\<rparr>)
                           | Some c \<Rightarrow>
                               if c = [] then (Inr False, w1\<lparr>files := fs1\<rparr>)
                               else
                                 (case b64decode E c of
                                    Inl e \<Rightarrow> (Inl e, w1\<lparr>files := fs1\<rparr>)
                                  | Inr bytes \<Rightarrow>
                                      (case write_file E local_path bytes fs1 of
                                         (Inl e, fs2) \<Rightarrow> (Inl e, w1\<lparr>files := fs2\<rparr>)
                                       | (Inr u', fs2) \<Rightarrow> (Inr True, w1\<lparr>files := fs2\<rparr>))))))))"

text \<open>\<^verbatim>\<open>except Exception: return False\<close>.\<close>

definition export_notebook ::
  "('s, 'f) notebook_env \<Rightarrow> string \<Rightarrow> string \<Rightarrow> string \<Rightarrow> ('s, 'f) disk_world
     \<Rightarrow> bool \<times> ('s, 'f) disk_world" where
  "export_notebook E workspace_path local_path format w =
     (case export_notebook_try E workspace_path local_path format w of
        (Inl e, w') \<Rightarrow> (False, w')
      | (Inr b, w') \<Rightarrow> (b, w'))"

text \<open>
  Lines 146-147: the language is looked up in the enumeration only when it is given and not
  empty; an unknown name raises \<^verbatim>\<open>KeyError\<close>.
\<close>

definition language_kwarg :: "('s, 'f) notebook_env \<Rightarrow> string option \<Rightarrow> exn + string option" where
  "language_kwarg E language =
     (case language of
        None \<Rightarrow> Inr None
      | Some l \<Rightarrow>
          if l = [] then Inr None
          else if str_upper E l \<in> set (languages E) then Inr (Some (str_upper E l))
          else Inl (key_error (str_upper E l)))"

text \<open>
  The body of the \<^verbatim>\<open>try\<close> block of \<^verbatim>\<open>import_notebook\<close>, lines 133-150. The file is
  read first, then the language is looked up, then the client is called.
\<close>

definition import_notebook_try ::
  "('s, 'f) notebook_env \<Rightarrow> string \<Rightarrow> string \<Rightarrow> string option \<Rightarrow> bool \<Rightarrow> ('s, 'f) disk_world
     \<Rightarrow> (exn + bool) \<times> ('s, 'f) disk_world" where
  "import_notebook_try E local_path workspace_path language overwrite w =
     (case read_file E local_path (files w) of
        (Inl e, fs1) \<Rightarrow> (Inl e, w\<lparr>files := fs1\<rparr>)
      | (Inr bytes, fs1) \<Rightarrow>
          (let content = b64encode E bytes;
               w1 = w\<lparr>files := fs1\<rparr>
           in case language_kwarg E language of
                Inl e \<Rightarrow> (Inl e, w1)
              | Inr lg \<Rightarrow>
                  (case workspace_import E workspace_path content ''SOURCE'' overwrite lg (remote w1) of
                     (r, s') \<Rightarrow>
                       (case r of Inl e \<Rightarrow> Inl e | Inr u \<Rightarrow> Inr True,
                        w1\<lparr>calls := calls w1 @ [WorkspaceImport workspace_path content ''SOURCE'' overwrite lg],
                           remote := s'\<rparr>))))"

definition import_notebook ::
  "('s, 'f) notebook_env \<Rightarrow> string \<Rightarrow> string \<Rightarrow> string option \<Rightarrow> bool \<Rightarrow> ('s, 'f) disk_world
     \<Rightarrow> bool \<times> ('s, 'f) disk_world" where
  "import_notebook E local_path workspace_path language overwrite w =
     (case import_notebook_try E local_path workspace_path language overwrite w of
        (Inl e, w') \<Rightarrow> (False, w')
      | (Inr b, w') \<Rightarrow> (b, w'))"

text \<open>Upper case on the ASCII letters, for the stand-in environment.\<close>

definition ascii_upper_char :: "char \<Rightarrow> char" where
  "ascii_upper_char c =
     (if 97 \<le> (of_char c :: nat) \<and> (of_char c :: nat) \<le> 122
      then char_of ((of_char c :: nat) - 32) else c)"

definition ascii_upper :: "string \<Rightarrow> string" where
  "ascii_upper s = map ascii_upper_char s"

text \<open>
  A stand-in environment: the workspace is a list of (path, base64 content), the file
  system a list of (path, bytes); base64 is the identity on texts of even length and
  rejects the others; the directory \<open>ro\<close> is read-only.
\<close>

definition toy_env :: "((string \<times> string) list, (string \<times> string) list) notebook_env" where
  "toy_env =
     \<lparr>str_upper = ascii_upper,
      export_formats = [''SOURCE'', ''HTML'', ''JUPYTER'', ''DBC''],
      languages = [''PYTHON'', ''SCALA'', ''SQL'', ''R''],
      workspace_export = (\<lambda>path fmt s.
         (case map_of s path of
            None \<Rightarrow> Inl (Exn ''ResourceDoesNotExist'' path)
          | Some c \<Rightarrow> Inr (Some c), s)),
      workspace_import = (\<lambda>path content fmt overwrite lang s.
         if \<not> overwrite \<and> map_of s path \<noteq> None
         then (Inl (Exn ''ResourceAlreadyExists'' path), s)
         else (Inr (), AList.update path content s)),
      path_parent = (\<lambda>path. rev (drop 1 (dropWhile (\<lambda>c. c \<noteq> CHR ''/'') (rev path)))),
      mkdir_parents = (\<lambda>dir fs.
         if dir = ''ro'' then (Inl (Exn ''PermissionError'' dir), fs) else (Inr (), fs)),
      write_file = (\<lambda>path bytes fs. (Inr (), AList.update path bytes fs)),
      read_file = (\<lambda>path fs.
         (case map_of fs path of
            None \<Rightarrow> Inl (Exn ''FileNotFoundError'' path)
          | Some bytes \<Rightarrow> Inr bytes, fs)),
      b64decode = (\<lambda>c. if even (length c) then Inr c else Inl (Exn ''Error'' ''Incorrect padding'')),
      b64encode = (\<lambda>bytes. bytes)\<rparr>"

definition toy_world :: "((string \<times> string) list, (string \<times> string) list) disk_world" where
  "toy_world =
     \<lparr>calls = [], remote = [(''/nb'', ''abcd''), (''/empty'', [])],
      files = [(''out/nb.py'', ''xy'')]\<rparr>"

section \<open>Properties of the specification merge and of \<^verbatim>\<open>create_or_update\<close>\<close>

lemma map_of_dict_update:
  "distinct (map fst kw) \<Longrightarrow>
   map_of (dict_update d kw) k = (case map_of kw k of Some v \<Rightarrow> Some v | None \<Rightarrow> map_of d k)"
proof (induction kw arbitrary: d)
  case Nil
  then show ?case by (simp add: dict_update_def)
next
  case (Cons kv kw)
  obtain k1 v1 where kv: "kv = (k1, v1)" by (cases kv)
  from Cons.prems kv have notin: "k1 \<notin> fst ` set kw" and dist: "distinct (map fst kw)"
    by auto
  have step: "dict_update d ((k1, v1) # kw) = dict_update (AList.update k1 v1 d) kw"
    by (simp add: dict_update_def)
  from notin have none: "map_of kw k1 = None"
    by (simp add: map_of_eq_None_iff)
  show ?case
    using Cons.IH [OF dist, of "AList.update k1 v1 d"] none
    by (auto simp add: step kv AList.update_conv' split: option.splits)
qed

lemma create_or_update_unnamed:
  assumes "normalize_spec loads spec kwargs = Inr merged"
    and "map_of merged ''name'' = None \<or> (\<exists>v. map_of merged ''name'' = Some v \<and> \<not> py_truthy v)"
  shows "create_or_update loads F spec kwargs w = (Inl name_missing, w)"
  using assms by (auto simp add: create_or_update_def)

lemma create_or_update_named:
  assumes "normalize_spec loads spec kwargs = Inr merged"
    and "map_of merged ''name'' = Some pipeline_name"
    and "py_truthy pipeline_name"
  shows "create_or_update loads F spec kwargs w =
           (case try_block F merged pipeline_name w of
              (Inl e, w') \<Rightarrow> (Inl (reconcile_failed e), w')
            | (Inr result, w') \<Rightarrow> (Inr result, w'))"
  using assms by (simp add: create_or_update_def)

lemma try_block_list_fails:
  assumes "pipelines_list_pipelines F (remote w) = (Inl e, s1)"
  shows "try_block F merged pipeline_name w =
           (Inl e, \<lparr>calls = calls w @ [ListPipelines], remote = s1\<rparr>)"
  using assms by (simp add: try_block_def call_list_pipelines_def)

lemma try_block_update:
  assumes "pipelines_list_pipelines F (remote w) = (Inr all_pipelines, s1)"
    and "existing_pipeline pipeline_name all_pipelines = Some existing"
    and "pipelines_update F (AList.update ''pipeline_id'' (JStr (pipeline_id existing)) merged) s1
           = (r, s2)"
  shows "try_block F merged pipeline_name w =
           (case r of Inl e \<Rightarrow> Inl e | Inr u \<Rightarrow> Inr (pipeline_id existing, False),
            \<lparr>calls = calls w @ [ListPipelines,
                 Update (AList.update ''pipeline_id'' (JStr (pipeline_id existing)) merged)],
             remote = s2\<rparr>)"
  using assms
  by (simp add: try_block_def call_list_pipelines_def call_update_def split: sum.splits)

lemma try_block_create:
  assumes "pipelines_list_pipelines F (remote w) = (Inr all_pipelines, s1)"
    and "existing_pipeline pipeline_name all_pipelines = None"
    and "pipelines_create F merged s1 = (r, s2)"
  shows "try_block F merged pipeline_name w =
           (case r of Inl e \<Rightarrow> Inl e | Inr new_id \<Rightarrow> Inr (new_id, True),
            \<lparr>calls = calls w @ [ListPipelines, Create merged], remote = s2\<rparr>)"
  using assms
  by (simp add: try_block_def call_list_pipelines_def call_create_def split: sum.splits)

lemma existing_pipeline_None:
  "existing_pipeline v ps = None \<longleftrightarrow> (\<forall>p \<in> set ps. JStr (name p) \<noteq> v)"
  by (induction ps) auto

lemma existing_pipeline_Some:
  "existing_pipeline v ps = Some p \<longleftrightarrow>
     (\<exists>before after. ps = before @ p # after \<and> JStr (name p) = v
        \<and> (\<forall>q \<in> set before. JStr (name q) \<noteq> v))"
proof (induction ps)
  case Nil
  then show ?case by simp
next
  case (Cons a ps)
  show ?case
  proof (cases "JStr (name a) = v")
    case True
    have "(\<exists>before after. a # ps = before @ p # after \<and> JStr (name p) = v
        \<and> (\<forall>q \<in> set before. JStr (name q) \<noteq> v)) \<longleftrightarrow> a = p"
    proof
      assume "\<exists>before after. a # ps = before @ p # after \<and> JStr (name p) = v
        \<and> (\<forall>q \<in> set before. JStr (name q) \<noteq> v)"
      then obtain before after where eq: "a # ps = before @ p # after"
        and nb: "\<forall>q \<in> set before. JStr (name q) \<noteq> v" by blast
      show "a = p"
      proof (cases before)
        case Nil
        with eq show ?thesis by simp
      next
        case (Cons b bs)
        with eq have "b = a" by simp
        with Cons nb True show ?thesis by simp
      qed
    next
      assume "a = p"
      with True have "a # ps = [] @ p # ps \<and> JStr (name p) = v
        \<and> (\<forall>q \<in> set []. JStr (name q) \<noteq> v)" by simp
      then show "\<exists>before after. a # ps = before @ p # after \<and> JStr (name p) = v
        \<and> (\<forall>q \<in> set before. JStr (name q) \<noteq> v)" by blast
    qed
    with True show ?thesis by simp
  next
    case False
    have "(\<exists>before after. a # ps = before @ p # after \<and> JStr (name p) = v
        \<and> (\<forall>q \<in> set before. JStr (name q) \<noteq> v)) \<longleftrightarrow>
          (\<exists>before after. ps = before @ p # after \<and> JStr (name p) = v
        \<and> (\<forall>q \<in> set before. JStr (name q) \<noteq> v))" (is "?L \<longleftrightarrow> ?R")
    proof
      assume ?L
      then obtain before after where eq: "a # ps = before @ p # after"
        and np: "JStr (name p) = v"
        and nb: "\<forall>q \<in> set before. JStr (name q) \<noteq> v" by blast
      show ?R
      proof (cases before)
        case Nil
        with eq np False show ?thesis by simp
      next
        case (Cons b bs)
        with eq nb np have "ps = bs @ p # after \<and> JStr (name p) = v
           \<and> (\<forall>q \<in> set bs. JStr (name q) \<noteq> v)" by simp
        then show ?thesis by blast
      qed
    next
      assume ?R
      then obtain before after where eq: "ps = before @ p # after"
        and np: "JStr (name p) = v"
        and nb: "\<forall>q \<in> set before. JStr (name q) \<noteq> v" by blast
      with False have "a # ps = (a # before) @ p # after \<and> JStr (name p) = v
           \<and> (\<forall>q \<in> set (a # before). JStr (name q) \<noteq> v)" by simp
      then show ?L by blast
    qed
    with False Cons.IH show ?thesis by simp
  qed
qed

lemma normalize_p1_spec: "normalize_spec toy_loads (SpecDict p1_spec) [] = Inr p1_spec"
  by (simp add: normalize_spec_def parse_spec_def merge_kwargs_def dict_update_def)

lemma name_p1_spec: "map_of p1_spec ''name'' = Some (JStr ''p1'')"
  by (simp add: p1_spec_def)

lemma existing_two_pipelines:
  "existing_pipeline (JStr ''p1'') two_pipelines = Some \<lparr>name = ''p1'', pipeline_id = ''id-1''\<rparr>"
  by (simp add: two_pipelines_def)

subsection \<open>C5\<close>

text \<open>
  Claim C5. Whether the specification is a dictionary or a text, once the merge with the
  overrides has produced a dictionary whose \<open>name\<close> is missing or falsy (the empty string
  in particular), \<^verbatim>\<open>create_or_update\<close> raises \<^verbatim>\<open>ValueError\<close> and the world is
  the one it started from: the log of calls has no new entry and the remote state is
  untouched.
\<close>

theorem create_or_update_requires_name:
  assumes "normalize_spec loads spec kwargs = Inr merged"
    and "map_of merged ''name'' = None
         \<or> (\<exists>v. map_of merged ''name'' = Some v \<and> \<not> py_truthy v)"
  shows "create_or_update loads F spec kwargs w =
           (Inl (Exn ''ValueError'' ''Pipeline spec must include 'name' field''), w)"
  using create_or_update_unnamed [OF assms] by (simp add: name_missing_def)

theorem create_or_update_requires_name_witness:
  "normalize_spec toy_loads (SpecStr ''{}'') [(''name'', JStr [])] = Inr [(''name'', JStr [])]
   \<and> (map_of [(''name'', JStr [])] ''name'' = None
        \<or> (\<exists>v. map_of [(''name'', JStr [])] ''name'' = Some v \<and> \<not> py_truthy v))
   \<and> create_or_update toy_loads store_facade (SpecStr ''{}'') [(''name'', JStr [])]
        \<lparr>calls = [], remote = []\<rparr> =
       (Inl (Exn ''ValueError'' ''Pipeline spec must include 'name' field''),
        \<lparr>calls = [], remote = []\<rparr>)"
proof -
  have n: "normalize_spec toy_loads (SpecStr ''{}'') [(''name'', JStr [])] = Inr [(''name'', JStr [])]"
    by (simp add: normalize_spec_def parse_spec_def toy_loads_def merge_kwargs_def dict_update_def)
  have e: "map_of [(''name'', JStr [])] ''name'' = None
        \<or> (\<exists>v. map_of [(''name'', JStr [])] ''name'' = Some v \<and> \<not> py_truthy v)"
    by simp
  show ?thesis
    using n e create_or_update_requires_name [OF n e, of store_facade "\<lparr>calls = [], remote = []\<rparr>"]
    by simp
qed

subsection \<open>C6\<close>

text \<open>
  Claim C6. Whether the base specification is given as a dictionary or as a text that
  decodes to it, the dictionary that \<^verbatim>\<open>create\<close>, \<^verbatim>\<open>create_or_update\<close> and
  \<^verbatim>\<open>update\<close> pass on maps every key of the overrides to the override's value and every
  other key to the value of the base; the value looked up is the override as a whole, so a
  nested structure is replaced, not merged. \<^verbatim>\<open>update\<close> assigns \<^verbatim>\<open>pipeline_id\<close> on
  top, and takes the empty dictionary as base when no specification is given. The
  overrides are a Python dictionary, so their keys are distinct.
\<close>

theorem override_fields_win:
  assumes "distinct (map fst kwargs)"
  shows "(\<forall>k. map_of (dict_update base kwargs) k =
                (case map_of kwargs k of Some v \<Rightarrow> Some v | None \<Rightarrow> map_of base k))
    \<and> normalize_spec loads (SpecDict base) kwargs = Inr (dict_update base kwargs)
    \<and> (loads jtext = Inr (JObj base) \<longrightarrow>
          normalize_spec loads (SpecStr jtext) kwargs = Inr (dict_update base kwargs))
    \<and> create loads F (SpecDict base) kwargs w = call_create F (dict_update base kwargs) w
    \<and> (loads jtext = Inr (JObj base) \<longrightarrow>
          create loads F (SpecStr jtext) kwargs w = call_create F (dict_update base kwargs) w)
    \<and> (map_of (dict_update base kwargs) ''name'' = Some nm \<and> py_truthy nm \<longrightarrow>
          create_or_update loads F (SpecDict base) kwargs w =
            (case try_block F (dict_update base kwargs) nm w of
               (Inl e, w') \<Rightarrow> (Inl (reconcile_failed e), w')
             | (Inr res, w') \<Rightarrow> (Inr res, w')))
    \<and> (loads jtext = Inr (JObj base)
          \<and> map_of (dict_update base kwargs) ''name'' = Some nm \<and> py_truthy nm \<longrightarrow>
          create_or_update loads F (SpecStr jtext) kwargs w =
            (case try_block F (dict_update base kwargs) nm w of
               (Inl e, w') \<Rightarrow> (Inl (reconcile_failed e), w')
             | (Inr res, w') \<Rightarrow> (Inr res, w')))
    \<and> update' loads F pid (Some (SpecDict base)) kwargs w =
          call_update F (AList.update ''pipeline_id'' (JStr pid) (dict_update base kwargs)) w
    \<and> (jtext \<noteq> [] \<and> loads jtext = Inr (JObj base) \<longrightarrow>
          update' loads F pid (Some (SpecStr jtext)) kwargs w =
            call_update F (AList.update ''pipeline_id'' (JStr pid) (dict_update base kwargs)) w)
    \<and> update' loads F pid None kwargs w =
          call_update F (AList.update ''pipeline_id'' (JStr pid) (dict_update [] kwargs)) w
    \<and> dict_update [(''a'', JInt 1)] [(''a'', JInt 2)] = [(''a'', JInt 2)]
    \<and> dict_update [(''a'', JInt 1), (''b'', JInt 5)] [(''a'', JInt 2)]
         = [(''a'', JInt 2), (''b'', JInt 5)]
    \<and> dict_update [(''c'', JObj [(''x'', JInt 1), (''y'', JInt 2)])]
          [(''c'', JObj [(''x'', JInt 9)])] = [(''c'', JObj [(''x'', JInt 9)])]"
proof (intro conjI impI allI)
  fix k
  show "map_of (dict_update base kwargs) k =
          (case map_of kwargs k of Some v \<Rightarrow> Some v | None \<Rightarrow> map_of base k)"
    by (rule map_of_dict_update [OF assms])
next
  show "normalize_spec loads (SpecDict base) kwargs = Inr (dict_update base kwargs)"
    by (simp add: normalize_spec_def parse_spec_def merge_kwargs_def)
next
  assume "loads jtext = Inr (JObj base)"
  then show "normalize_spec loads (SpecStr jtext) kwargs = Inr (dict_update base kwargs)"
    by (simp add: normalize_spec_def parse_spec_def merge_kwargs_def)
next
  show "create loads F (SpecDict base) kwargs w = call_create F (dict_update base kwargs) w"
    by (simp add: create_def normalize_spec_def parse_spec_def merge_kwargs_def)
next
  assume "loads jtext = Inr (JObj base)"
  then show "create loads F (SpecStr jtext) kwargs w = call_create F (dict_update base kwargs) w"
    by (simp add: create_def normalize_spec_def parse_spec_def merge_kwargs_def)
next
  assume "map_of (dict_update base kwargs) ''name'' = Some nm \<and> py_truthy nm"
  then show "create_or_update loads F (SpecDict base) kwargs w =
            (case try_block F (dict_update base kwargs) nm w of
               (Inl e, w') \<Rightarrow> (Inl (reconcile_failed e), w')
             | (Inr res, w') \<Rightarrow> (Inr res, w'))"
    by (simp add: create_or_update_def normalize_spec_def parse_spec_def merge_kwargs_def)
next
  assume "loads jtext = Inr (JObj base)
          \<and> map_of (dict_update base kwargs) ''name'' = Some nm \<and> py_truthy nm"
  then show "create_or_update loads F (SpecStr jtext) kwargs w =
            (case try_block F (dict_update base kwargs) nm w of
               (Inl e, w') \<Rightarrow> (Inl (reconcile_failed e), w')
             | (Inr res, w') \<Rightarrow> (Inr res, w'))"
    by (simp add: create_or_update_def normalize_spec_def parse_spec_def merge_kwargs_def)
next
  show "update' loads F pid (Some (SpecDict base)) kwargs w =
          call_update F (AList.update ''pipeline_id'' (JStr pid) (dict_update base kwargs)) w"
    by (simp add: update'_def update_base_def merge_kwargs_def)
next
  assume "jtext \<noteq> [] \<and> loads jtext = Inr (JObj base)"
  then show "update' loads F pid (Some (SpecStr jtext)) kwargs w =
            call_update F (AList.update ''pipeline_id'' (JStr pid) (dict_update base kwargs)) w"
    by (simp add: update'_def update_base_def merge_kwargs_def)
next
  show "update' loads F pid None kwargs w =
          call_update F (AList.update ''pipeline_id'' (JStr pid) (dict_update [] kwargs)) w"
    by (simp add: update'_def update_base_def merge_kwargs_def)
next
  show "dict_update [(''a'', JInt 1)] [(''a'', JInt 2)] = [(''a'', JInt 2)]"
    by (simp add: dict_update_def)
next
  show "dict_update [(''a'', JInt 1), (''b'', JInt 5)] [(''a'', JInt 2)]
         = [(''a'', JInt 2), (''b'', JInt 5)]"
    by (simp add: dict_update_def)
next
  show "dict_update [(''c'', JObj [(''x'', JInt 1), (''y'', JInt 2)])]
          [(''c'', JObj [(''x'', JInt 9)])] = [(''c'', JObj [(''x'', JInt 9)])]"
    by (simp add: dict_update_def)
qed

theorem override_fields_win_witness:
  "normalize_spec toy_loads (SpecStr ab_text) [(''a'', JInt 2), (''c'', JInt 7)]
     = Inr [(''a'', JInt 2), (''b'', JInt 5), (''c'', JInt 7)]
   \<and> create toy_loads store_facade (SpecStr ab_text) [(''a'', JInt 2), (''c'', JInt 7)]
        \<lparr>calls = [], remote = []\<rparr> =
       (Inr ''id-0'',
        \<lparr>calls = [Create [(''a'', JInt 2), (''b'', JInt 5), (''c'', JInt 7)]],
         remote = [\<lparr>name = [], pipeline_id = ''id-0''\<rparr>]\<rparr>)
   \<and> update' toy_loads store_facade ''id-1'' (Some (SpecDict ab_dict))
        [(''a'', JInt 2), (''c'', JInt 7)] \<lparr>calls = [], remote = two_pipelines\<rparr> =
       (Inr (),
        \<lparr>calls = [Update [(''a'', JInt 2), (''b'', JInt 5), (''c'', JInt 7),
                           (''pipeline_id'', JStr ''id-1'')]],
         remote = [\<lparr>name = ''p0'', pipeline_id = ''id-0''\<rparr>,
                   \<lparr>name = [], pipeline_id = ''id-1''\<rparr>]\<rparr>)
   \<and> update' toy_loads store_facade ''id-1'' (Some (SpecStr ab_text))
        [(''a'', JInt 2), (''c'', JInt 7)] \<lparr>calls = [], remote = two_pipelines\<rparr> =
       (Inr (),
        \<lparr>calls = [Update [(''a'', JInt 2), (''b'', JInt 5), (''c'', JInt 7),
                           (''pipeline_id'', JStr ''id-1'')]],
         remote = [\<lparr>name = ''p0'', pipeline_id = ''id-0''\<rparr>,
                   \<lparr>name = [], pipeline_id = ''id-1''\<rparr>]\<rparr>)"
proof -
  have d: "distinct (map fst [(''a'', JInt 2), (''c'', JInt 7)])" by simp
  have l: "toy_loads ab_text = Inr (JObj ab_dict)"
    by (simp add: toy_loads_def ab_text_def)
  have t: "ab_text \<noteq> []" by (simp add: ab_text_def)
  have m: "dict_update ab_dict [(''a'', JInt 2), (''c'', JInt 7)]
             = [(''a'', JInt 2), (''b'', JInt 5), (''c'', JInt 7)]"
    by (simp add: dict_update_def ab_dict_def)
  have c: "call_create store_facade [(''a'', JInt 2), (''b'', JInt 5), (''c'', JInt 7)]
             \<lparr>calls = [], remote = []\<rparr> =
           (Inr ''id-0'',
            \<lparr>calls = [Create [(''a'', JInt 2), (''b'', JInt 5), (''c'', JInt 7)]],
             remote = [\<lparr>name = [], pipeline_id = ''id-0''\<rparr>]\<rparr>)"
    by code_simp
  have u: "call_update store_facade
             (AList.update ''pipeline_id'' (JStr ''id-1'')
                [(''a'', JInt 2), (''b'', JInt 5), (''c'', JInt 7)])
             \<lparr>calls = [], remote = two_pipelines\<rparr> =
           (Inr (),
            \<lparr>calls = [Update [(''a'', JInt 2), (''b'', JInt 5), (''c'', JInt 7),
                               (''pipeline_id'', JStr ''id-1'')]],
             remote = [\<lparr>name = ''p0'', pipeline_id = ''id-0''\<rparr>,
                       \<lparr>name = [], pipeline_id = ''id-1''\<rparr>]\<rparr>)"
    by code_simp
  from override_fields_win [OF d, where base = ab_dict and loads = toy_loads
      and jtext = ab_text and F = store_facade and pid = "''id-1''"
      and w = "\<lparr>calls = [], remote = []\<rparr>"] l m c
  have A: "normalize_spec toy_loads (SpecStr ab_text) [(''a'', JInt 2), (''c'', JInt 7)]
     = Inr [(''a'', JInt 2), (''b'', JInt 5), (''c'', JInt 7)]"
    and B: "create toy_loads store_facade (SpecStr ab_text) [(''a'', JInt 2), (''c'', JInt 7)]
        \<lparr>calls = [], remote = []\<rparr> =
       (Inr ''id-0'',
        \<lparr>calls = [Create [(''a'', JInt 2), (''b'', JInt 5), (''c'', JInt 7)]],
         remote = [\<lparr>name = [], pipeline_id = ''id-0''\<rparr>]\<rparr>)"
    by simp_all
  from override_fields_win [OF d, where base = ab_dict and loads = toy_loads
      and jtext = ab_text and F = store_facade and pid = "''id-1''"
      and w = "\<lparr>calls = [], remote = two_pipelines\<rparr>"] l t m u
  have C: "update' toy_loads store_facade ''id-1'' (Some (SpecDict ab_dict))
        [(''a'', JInt 2), (''c'', JInt 7)] \<lparr>calls = [], remote = two_pipelines\<rparr> =
       (Inr (),
        \<lparr>calls = [Update [(''a'', JInt 2), (''b'', JInt 5), (''c'', JInt 7),
                           (''pipeline_id'', JStr ''id-1'')]],
         remote = [\<lparr>name = ''p0'', pipeline_id = ''id-0''\<rparr>,
                   \<lparr>name = [], pipeline_id = ''id-1''\<rparr>]\<rparr>)"
    and D: "update' toy_loads store_facade ''id-1'' (Some (SpecStr ab_text))
        [(''a'', JInt 2), (''c'', JInt 7)] \<lparr>calls = [], remote = two_pipelines\<rparr> =
       (Inr (),
        \<lparr>calls = [Update [(''a'', JInt 2), (''b'', JInt 5), (''c'', JInt 7),
                           (''pipeline_id'', JStr ''id-1'')]],
         remote = [\<lparr>name = ''p0'', pipeline_id = ''id-0''\<rparr>,
                   \<lparr>name = [], pipeline_id = ''id-1''\<rparr>]\<rparr>)"
    by simp_all
  from A B C D show ?thesis by simp
qed

subsection \<open>C1\<close>

text \<open>
  Claim C1. With a truthy name in the merged specification and a listing that succeeds,
  \<^verbatim>\<open>create_or_update\<close> lists once, takes the first pipeline of that name, and then
  either issues one update with the merged specification plus that pipeline's identifier
  and returns (identifier, False), or, when no pipeline has the name, issues one create
  with the merged specification and returns (new identifier, True).
\<close>

theorem create_or_update_by_name:
  assumes "normalize_spec loads spec kwargs = Inr merged"
    and "map_of merged ''name'' = Some pipeline_name"
    and "py_truthy pipeline_name"
    and "pipelines_list_pipelines F (remote w) = (Inr all_pipelines, s1)"
  shows "(\<forall>existing s2.
            existing_pipeline pipeline_name all_pipelines = Some existing
          \<and> pipelines_update F
               (AList.update ''pipeline_id'' (JStr (pipeline_id existing)) merged) s1 = (Inr (), s2)
          \<longrightarrow> create_or_update loads F spec kwargs w =
                (Inr (pipeline_id existing, False),
                 \<lparr>calls = calls w @ [ListPipelines,
                    Update (AList.update ''pipeline_id'' (JStr (pipeline_id existing)) merged)],
                  remote = s2\<rparr>))
       \<and> (\<forall>new_id s2.
            existing_pipeline pipeline_name all_pipelines = None
          \<and> pipelines_create F merged s1 = (Inr new_id, s2)
          \<longrightarrow> create_or_update loads F spec kwargs w =
                (Inr (new_id, True),
                 \<lparr>calls = calls w @ [ListPipelines, Create merged], remote = s2\<rparr>))
       \<and> (\<forall>existing.
            existing_pipeline pipeline_name all_pipelines = Some existing
          \<longleftrightarrow> (\<exists>before after. all_pipelines = before @ existing # after
                \<and> JStr (name existing) = pipeline_name
                \<and> (\<forall>p \<in> set before. JStr (name p) \<noteq> pipeline_name)))
       \<and> (existing_pipeline pipeline_name all_pipelines = None
          \<longleftrightarrow> (\<forall>p \<in> set all_pipelines. JStr (name p) \<noteq> pipeline_name))"
proof (intro conjI allI impI)
  fix existing s2
  assume "existing_pipeline pipeline_name all_pipelines = Some existing
          \<and> pipelines_update F
               (AList.update ''pipeline_id'' (JStr (pipeline_id existing)) merged) s1 = (Inr (), s2)"
  then show "create_or_update loads F spec kwargs w =
                (Inr (pipeline_id existing, False),
                 \<lparr>calls = calls w @ [ListPipelines,
                    Update (AList.update ''pipeline_id'' (JStr (pipeline_id existing)) merged)],
                  remote = s2\<rparr>)"
    using create_or_update_named [OF assms(1-3), of F w] try_block_update [OF assms(4)]
    by simp
next
  fix new_id s2
  assume "existing_pipeline pipeline_name all_pipelines = None
          \<and> pipelines_create F merged s1 = (Inr new_id, s2)"
  then show "create_or_update loads F spec kwargs w =
                (Inr (new_id, True),
                 \<lparr>calls = calls w @ [ListPipelines, Create merged], remote = s2\<rparr>)"
    using create_or_update_named [OF assms(1-3), of F w] try_block_create [OF assms(4)]
    by simp
next
  fix existing
  show "existing_pipeline pipeline_name all_pipelines = Some existing
          \<longleftrightarrow> (\<exists>before after. all_pipelines = before @ existing # after
                \<and> JStr (name existing) = pipeline_name
                \<and> (\<forall>p \<in> set before. JStr (name p) \<noteq> pipeline_name))"
    by (rule existing_pipeline_Some)
next
  show "existing_pipeline pipeline_name all_pipelines = None
          \<longleftrightarrow> (\<forall>p \<in> set all_pipelines. JStr (name p) \<noteq> pipeline_name)"
    by (rule existing_pipeline_None)
qed

theorem create_or_update_by_name_witness:
  "create_or_update toy_loads store_facade (SpecDict p1_spec) []
      \<lparr>calls = [], remote = two_pipelines\<rparr> =
     (Inr (''id-1'', False),
      \<lparr>calls = [ListPipelines, Update (AList.update ''pipeline_id'' (JStr ''id-1'') p1_spec)],
       remote = two_pipelines\<rparr>)
   \<and> create_or_update toy_loads store_facade (SpecDict p1_spec) []
      \<lparr>calls = [], remote = []\<rparr> =
     (Inr (''id-0'', True),
      \<lparr>calls = [ListPipelines, Create p1_spec],
       remote = [\<lparr>name = ''p1'', pipeline_id = ''id-0''\<rparr>]\<rparr>)"
proof -
  have t: "py_truthy (JStr ''p1'')" by simp
  have l2: "pipelines_list_pipelines store_facade (remote \<lparr>calls = [], remote = two_pipelines\<rparr>)
              = (Inr two_pipelines, two_pipelines)"
    by (simp add: store_facade_def)
  have u: "pipelines_update store_facade
             (AList.update ''pipeline_id'' (JStr (pipeline_id \<lparr>name = ''p1'', pipeline_id = ''id-1''\<rparr>)) p1_spec)
             two_pipelines = (Inr (), two_pipelines)"
    by (simp add: store_facade_def two_pipelines_def renamed_def spec_name_def p1_spec_def)
  have l0: "pipelines_list_pipelines store_facade (remote \<lparr>calls = [], remote = []\<rparr>)
              = (Inr [], [])"
    by (simp add: store_facade_def)
  have c: "pipelines_create store_facade p1_spec [] =
             (Inr ''id-0'', [\<lparr>name = ''p1'', pipeline_id = ''id-0''\<rparr>])"
    by code_simp
  have e0: "existing_pipeline (JStr ''p1'') [] = None" by simp
  from create_or_update_by_name [OF normalize_p1_spec name_p1_spec t l2]
    existing_two_pipelines u
  have A: "create_or_update toy_loads store_facade (SpecDict p1_spec) []
      \<lparr>calls = [], remote = two_pipelines\<rparr> =
     (Inr (''id-1'', False),
      \<lparr>calls = [ListPipelines, Update (AList.update ''pipeline_id'' (JStr ''id-1'') p1_spec)],
       remote = two_pipelines\<rparr>)"
    by simp
  from create_or_update_by_name [OF normalize_p1_spec name_p1_spec t l0] e0 c
  have B: "create_or_update toy_loads store_facade (SpecDict p1_spec) []
      \<lparr>calls = [], remote = []\<rparr> =
     (Inr (''id-0'', True),
      \<lparr>calls = [ListPipelines, Create p1_spec],
       remote = [\<lparr>name = ''p1'', pipeline_id = ''id-0''\<rparr>]\<rparr>)"
    by simp
  from A B show ?thesis by simp
qed

subsection \<open>C7\<close>

text \<open>
  Claim C7. When the listing raises, \<^verbatim>\<open>create_or_update\<close> raises a
  \<^verbatim>\<open>RuntimeError\<close> whose text is the fixed prefix followed by the text of the original
  exception; the class of the original exception does not appear.
\<close>

theorem existence_check_failure_is_generic:
  assumes "normalize_spec loads spec kwargs = Inr merged"
    and "map_of merged ''name'' = Some pipeline_name"
    and "py_truthy pipeline_name"
    and "pipelines_list_pipelines F (remote w) = (Inl e, s1)"
  shows "create_or_update loads F spec kwargs w =
           (Inl (Exn ''RuntimeError''
                  (''Failed to determine if pipeline exists: '' @ exn_str e)),
            \<lparr>calls = calls w @ [ListPipelines], remote = s1\<rparr>)"
  using create_or_update_named [OF assms(1-3), of F w] try_block_list_fails [OF assms(4)]
  by (simp add: reconcile_failed_def)

theorem existence_check_failure_is_generic_witness:
  "create_or_update toy_loads down_facade (SpecDict p1_spec) [] \<lparr>calls = [], remote = ()\<rparr> =
     (Inl (Exn ''RuntimeError'' ''Failed to determine if pipeline exists: connection refused''),
      \<lparr>calls = [ListPipelines], remote = ()\<rparr>)"
proof -
  have t: "py_truthy (JStr ''p1'')" by simp
  have l: "pipelines_list_pipelines down_facade (remote \<lparr>calls = [], remote = ()\<rparr>)
             = (Inl (Exn ''ConnectionError'' ''connection refused''), ())"
    by (simp add: down_facade_def)
  from existence_check_failure_is_generic [OF normalize_p1_spec name_p1_spec t l]
  show ?thesis by simp
qed

subsection \<open>C9\<close>

text \<open>
  Claim C9. An exception of the facade's update or create call inside
  \<^verbatim>\<open>create_or_update\<close> reaches the caller as the same \<^verbatim>\<open>RuntimeError\<close> as a
  failed listing does.
\<close>

theorem write_failure_is_generic:
  assumes "normalize_spec loads spec kwargs = Inr merged"
    and "map_of merged ''name'' = Some pipeline_name"
    and "py_truthy pipeline_name"
    and "pipelines_list_pipelines F (remote w) = (Inr all_pipelines, s1)"
  shows "(\<forall>existing e s2.
            existing_pipeline pipeline_name all_pipelines = Some existing
          \<and> pipelines_update F
               (AList.update ''pipeline_id'' (JStr (pipeline_id existing)) merged) s1 = (Inl e, s2)
          \<longrightarrow> create_or_update loads F spec kwargs w =
                (Inl (Exn ''RuntimeError''
                       (''Failed to determine if pipeline exists: '' @ exn_str e)),
                 \<lparr>calls = calls w @ [ListPipelines,
                    Update (AList.update ''pipeline_id'' (JStr (pipeline_id existing)) merged)],
                  remote = s2\<rparr>))
       \<and> (\<forall>e s2.
            existing_pipeline pipeline_name all_pipelines = None
          \<and> pipelines_create F merged s1 = (Inl e, s2)
          \<longrightarrow> create_or_update loads F spec kwargs w =
                (Inl (Exn ''RuntimeError''
                       (''Failed to determine if pipeline exists: '' @ exn_str e)),
                 \<lparr>calls = calls w @ [ListPipelines, Create merged], remote = s2\<rparr>))"
proof (intro conjI allI impI)
  fix existing e s2
  assume "existing_pipeline pipeline_name all_pipelines = Some existing
          \<and> pipelines_update F
               (AList.update ''pipeline_id'' (JStr (pipeline_id existing)) merged) s1 = (Inl e, s2)"
  then show "create_or_update loads F spec kwargs w =
                (Inl (Exn ''RuntimeError''
                       (''Failed to determine if pipeline exists: '' @ exn_str e)),
                 \<lparr>calls = calls w @ [ListPipelines,
                    Update (AList.update ''pipeline_id'' (JStr (pipeline_id existing)) merged)],
                  remote = s2\<rparr>)"
    using create_or_update_named [OF assms(1-3), of F w] try_block_update [OF assms(4)]
    by (simp add: reconcile_failed_def)
next
  fix e s2
  assume "existing_pipeline pipeline_name all_pipelines = None
          \<and> pipelines_create F merged s1 = (Inl e, s2)"
  then show "create_or_update loads F spec kwargs w =
                (Inl (Exn ''RuntimeError''
                       (''Failed to determine if pipeline exists: '' @ exn_str e)),
                 \<lparr>calls = calls w @ [ListPipelines, Create merged], remote = s2\<rparr>)"
    using create_or_update_named [OF assms(1-3), of F w] try_block_create [OF assms(4)]
    by (simp add: reconcile_failed_def)
qed

theorem write_failure_is_generic_witness:
  "create_or_update toy_loads (read_only_facade two_pipelines) (SpecDict p1_spec) []
      \<lparr>calls = [], remote = ()\<rparr> =
     (Inl (Exn ''RuntimeError'' ''Failed to determine if pipeline exists: no write access''),
      \<lparr>calls = [ListPipelines, Update (AList.update ''pipeline_id'' (JStr ''id-1'') p1_spec)],
       remote = ()\<rparr>)
   \<and> create_or_update toy_loads (read_only_facade []) (SpecDict p1_spec) []
      \<lparr>calls = [], remote = ()\<rparr> =
     (Inl (Exn ''RuntimeError'' ''Failed to determine if pipeline exists: no write access''),
      \<lparr>calls = [ListPipelines, Create p1_spec], remote = ()\<rparr>)"
proof -
  have t: "py_truthy (JStr ''p1'')" by simp
  have l2: "pipelines_list_pipelines (read_only_facade two_pipelines)
              (remote \<lparr>calls = [], remote = ()\<rparr>) = (Inr two_pipelines, ())"
    by (simp add: read_only_facade_def)
  have u: "pipelines_update (read_only_facade two_pipelines)
             (AList.update ''pipeline_id'' (JStr (pipeline_id \<lparr>name = ''p1'', pipeline_id = ''id-1''\<rparr>)) p1_spec)
             () = (Inl (Exn ''PermissionDenied'' ''no write access''), ())"
    by (simp add: read_only_facade_def)
  have l0: "pipelines_list_pipelines (read_only_facade [])
              (remote \<lparr>calls = [], remote = ()\<rparr>) = (Inr [], ())"
    by (simp add: read_only_facade_def)
  have c: "pipelines_create (read_only_facade []) p1_spec () =
             (Inl (Exn ''PermissionDenied'' ''no write access''), ())"
    by (simp add: read_only_facade_def)
  have e0: "existing_pipeline (JStr ''p1'') [] = None" by simp
  from write_failure_is_generic [OF normalize_p1_spec name_p1_spec t l2]
    existing_two_pipelines u
  have A: "create_or_update toy_loads (read_only_facade two_pipelines) (SpecDict p1_spec) []
      \<lparr>calls = [], remote = ()\<rparr> =
     (Inl (Exn ''RuntimeError'' ''Failed to determine if pipeline exists: no write access''),
      \<lparr>calls = [ListPipelines, Update (AList.update ''pipeline_id'' (JStr ''id-1'') p1_spec)],
       remote = ()\<rparr>)"
    by simp
  from write_failure_is_generic [OF normalize_p1_spec name_p1_spec t l0] e0 c
  have B: "create_or_update toy_loads (read_only_facade []) (SpecDict p1_spec) []
      \<lparr>calls = [], remote = ()\<rparr> =
     (Inl (Exn ''RuntimeError'' ''Failed to determine if pipeline exists: no write access''),
      \<lparr>calls = [ListPipelines, Create p1_spec], remote = ()\<rparr>)"
    by simp
  from A B show ?thesis by simp
qed

section \<open>Properties of the pollers\<close>
























text \<open>
  The two pollers on objects shaped as those of the client library. A run whose life-cycle
  state is the member \<^verbatim>\<open>TERMINATED\<close> of the enumeration is not recognised by the
  comparison with strings of jobs.py line 41 (\<^verbatim>\<open>wait_for_update\<close> reads \<^verbatim>\<open>.value\<close>,
  \<^verbatim>\<open>wait_for_run\<close> does not): the poller sleeps on and times out. A response that holds
  the update under \<^verbatim>\<open>update\<close> has no attribute \<^verbatim>\<open>state\<close>: the first fetch of
  \<^verbatim>\<open>wait_for_update\<close> ends in \<^verbatim>\<open>AttributeError\<close>.
\<close>

lemma wait_for_run_enum_state:
  "wait_for_run (scripted_get_run sdk_runs_terminated) 7 10 3 fresh =
     Some (Inl (Exn ''TimeoutError'' ''Job run 7 did not complete within 10 seconds''),
           \<lparr>calls = [GetRun 7, Sleep 3, GetRun 7, Sleep 3, GetRun 7, Sleep 3, GetRun 7, Sleep 3],
            remote = 4\<rparr>)"
  by code_simp

lemma wait_for_update_response_object:
  "wait_for_update (scripted_get_update sdk_updates_completed) ''p'' ''u1'' 10 3 fresh =
     Some (Inl (attribute_error ''GetUpdateResponse'' ''state''),
           \<lparr>calls = [GetUpdate ''p'' ''u1''], remote = 1\<rparr>)"
  by code_simp

subsection \<open>C3\<close>




subsection \<open>C4\<close>




subsection \<open>C10\<close>




section \<open>Two calls of \<^verbatim>\<open>create_or_update\<close> in a row\<close>

lemma existing_after_create:
  assumes "existing_pipeline (JStr n) (before @ after) = None"
  shows "existing_pipeline (JStr n) (before @ \<lparr>name = n, pipeline_id = i\<rparr> # after)
           = Some \<lparr>name = n, pipeline_id = i\<rparr>"
  using assms by (induction before) (auto split: if_splits)

lemma existing_after_update:
  assumes "existing_pipeline (JStr n) ps = Some p"
    and "map_of kw ''pipeline_id'' = Some (JStr (pipeline_id p))"
    and "spec_name kw = n"
  shows "\<exists>q. existing_pipeline (JStr n) (map (renamed kw) ps) = Some q
             \<and> pipeline_id q = pipeline_id p"
  using assms(1)
proof (induction ps)
  case Nil
  then show ?case by simp
next
  case (Cons a ps)
  show ?case
  proof (cases "pipeline_id a = pipeline_id p")
    case True
    then have "renamed kw a = a\<lparr>name := n\<rparr>"
      using assms(2,3) by (simp add: renamed_def)
    with True show ?thesis by simp
  next
    case False
    then have same: "renamed kw a = a"
      using assms(2) by (simp add: renamed_def)
    from False Cons.prems have "JStr (name a) \<noteq> JStr n"
      by (auto split: if_splits)
    with Cons same show ?thesis by (simp split: if_splits)
  qed
qed

lemma spec_name_with_id:
  assumes "map_of merged ''name'' = Some (JStr n)"
  shows "spec_name (AList.update ''pipeline_id'' v merged) = n"
    and "spec_name merged = n"
  using assms by (simp_all add: spec_name_def AList.update_conv')

lemma named_call_is_truthy:
  assumes "normalize_spec loads spec kwargs = Inr merged"
    and "map_of merged ''name'' = Some (JStr n)"
    and "create_or_update loads F spec kwargs w = (Inr res, w')"
  shows "py_truthy (JStr n)"
  using assms by (auto simp add: create_or_update_def split: if_splits)

lemma first_call:
  assumes laws: "catalogue_facade F view"
    and norm: "normalize_spec loads spec kwargs = Inr merged"
    and nm: "map_of merged ''name'' = Some (JStr n)"
    and call: "create_or_update loads F spec kwargs w = (Inr (pid, created), w')"
  shows "(\<exists>q. existing_pipeline (JStr n) (view (remote w')) = Some q \<and> pipeline_id q = pid)
       \<and> (created \<longleftrightarrow> existing_pipeline (JStr n) (view (remote w)) = None)
       \<and> (\<not> created \<longrightarrow>
            (\<exists>p. existing_pipeline (JStr n) (view (remote w)) = Some p \<and> pipeline_id p = pid))"
proof -
  have t: "py_truthy (JStr n)" by (rule named_call_is_truthy [OF norm nm call])
  note unfold = create_or_update_named [OF norm nm t, of F w]
  obtain r s where l: "pipelines_list_pipelines F (remote w) = (r, s)"
    by (cases "pipelines_list_pipelines F (remote w)")
  show ?thesis
  proof (cases r)
    case (Inl e)
    with l call unfold try_block_list_fails [of F w e s merged "JStr n"]
    show ?thesis by simp
  next
    case (Inr ps)
    with l have l': "pipelines_list_pipelines F (remote w) = (Inr ps, s)" by simp
    from laws l' have ps: "ps = view (remote w)" and vs: "view s = view (remote w)"
      unfolding catalogue_facade_def by blast+
    show ?thesis
    proof (cases "existing_pipeline (JStr n) ps")
      case None
      obtain r2 s2 where c: "pipelines_create F merged s = (r2, s2)"
        by (cases "pipelines_create F merged s")
      from try_block_create [OF l' None c] unfold call
      have res: "r2 = Inr pid" and cr: "created" and w': "remote w' = s2"
        by (auto split: sum.splits)
      from laws c res obtain before after where b: "view s = before @ after"
        and a: "view s2 = before @ \<lparr>name = spec_name merged, pipeline_id = pid\<rparr> # after"
        unfolding catalogue_facade_def by blast
      from None ps vs b have "existing_pipeline (JStr n) (before @ after) = None" by simp
      from existing_after_create [OF this, of pid] a spec_name_with_id(2) [OF nm]
      have "existing_pipeline (JStr n) (view s2) = Some \<lparr>name = n, pipeline_id = pid\<rparr>"
        by simp
      with cr w' None ps show ?thesis by simp
    next
      case (Some p)
      let ?usp = "AList.update ''pipeline_id'' (JStr (pipeline_id p)) merged"
      obtain r2 s2 where u: "pipelines_update F ?usp s = (r2, s2)"
        by (cases "pipelines_update F ?usp s")
      from try_block_update [OF l' Some u] unfold call
      have res: "r2 = Inr ()" and pid: "pid = pipeline_id p" and cr: "\<not> created"
        and w': "remote w' = s2"
        by (auto split: sum.splits)
      from laws u res have v2: "view s2 = map (renamed ?usp) (view s)"
        unfolding catalogue_facade_def by blast
      have k: "map_of ?usp ''pipeline_id'' = Some (JStr (pipeline_id p))"
        by (simp add: AList.update_conv')
      from Some ps vs have "existing_pipeline (JStr n) (view s) = Some p" by simp
      from existing_after_update [OF this k spec_name_with_id(1) [OF nm]] v2
      obtain q where "existing_pipeline (JStr n) (view s2) = Some q"
        and "pipeline_id q = pipeline_id p" by auto
      with cr w' pid Some ps show ?thesis by simp
    qed
  qed
qed

lemma store_facade_catalogue: "catalogue_facade store_facade id"
  unfolding catalogue_facade_def store_facade_def
  by (auto intro: exI [of _ "[]"])

subsection \<open>C2\<close>

text \<open>
  Claim C2, amended. On a facade that keeps what it is given, two calls of
  \<^verbatim>\<open>create_or_update\<close> in a row that both return, with specifications of the same name,
  return the same identifier; the second call reports False, and the first call reports
  True exactly when the catalogue had no pipeline of that name before it.
\<close>

theorem create_or_update_twice:
  assumes "catalogue_facade F view"
    and "normalize_spec loads spec1 kwargs1 = Inr merged1"
    and "map_of merged1 ''name'' = Some (JStr n)"
    and "normalize_spec loads spec2 kwargs2 = Inr merged2"
    and "map_of merged2 ''name'' = Some (JStr n)"
    and "create_or_update loads F spec1 kwargs1 w0 = (Inr (id1, created1), w1)"
    and "create_or_update loads F spec2 kwargs2 w1 = (Inr (id2, created2), w2)"
  shows "id2 = id1 \<and> \<not> created2
       \<and> (created1 \<longleftrightarrow> (\<forall>p \<in> set (view (remote w0)). name p \<noteq> n))"
proof -
  from first_call [OF assms(1,2,3,6)]
  obtain q where q: "existing_pipeline (JStr n) (view (remote w1)) = Some q"
    and qid: "pipeline_id q = id1"
    and c1: "created1 \<longleftrightarrow> existing_pipeline (JStr n) (view (remote w0)) = None"
    by blast
  from first_call [OF assms(1,4,5,7)] q
  have "\<not> created2" and "\<exists>p. existing_pipeline (JStr n) (view (remote w1)) = Some p \<and> pipeline_id p = id2"
    by auto
  with q qid c1 show ?thesis
    by (auto simp add: existing_pipeline_None)
qed

theorem create_or_update_twice_witness:
  "create_or_update toy_loads store_facade (SpecDict p1_spec) [] \<lparr>calls = [], remote = []\<rparr> =
       (Inr (''id-0'', True),
        \<lparr>calls = [ListPipelines, Create p1_spec],
         remote = [\<lparr>name = ''p1'', pipeline_id = ''id-0''\<rparr>]\<rparr>)
   \<and> create_or_update toy_loads store_facade (SpecDict p1_spec_y) []
        \<lparr>calls = [ListPipelines, Create p1_spec],
         remote = [\<lparr>name = ''p1'', pipeline_id = ''id-0''\<rparr>]\<rparr> =
       (Inr (''id-0'', False),
        \<lparr>calls = [ListPipelines, Create p1_spec, ListPipelines,
                  Update (AList.update ''pipeline_id'' (JStr ''id-0'') p1_spec_y)],
         remote = [\<lparr>name = ''p1'', pipeline_id = ''id-0''\<rparr>]\<rparr>)"
proof -
  have n1: "normalize_spec toy_loads (SpecDict p1_spec) [] = Inr p1_spec"
    and n2: "normalize_spec toy_loads (SpecDict p1_spec_y) [] = Inr p1_spec_y"
    by (simp_all add: normalize_spec_def parse_spec_def merge_kwargs_def dict_update_def)
  have m1: "map_of p1_spec ''name'' = Some (JStr ''p1'')"
    and m2: "map_of p1_spec_y ''name'' = Some (JStr ''p1'')"
    by (simp_all add: p1_spec_def p1_spec_y_def)
  have c1: "create_or_update toy_loads store_facade (SpecDict p1_spec) [] \<lparr>calls = [], remote = []\<rparr> =
       (Inr (''id-0'', True),
        \<lparr>calls = [ListPipelines, Create p1_spec],
         remote = [\<lparr>name = ''p1'', pipeline_id = ''id-0''\<rparr>]\<rparr>)"
    by code_simp
  have c2: "create_or_update toy_loads store_facade (SpecDict p1_spec_y) []
        \<lparr>calls = [ListPipelines, Create p1_spec],
         remote = [\<lparr>name = ''p1'', pipeline_id = ''id-0''\<rparr>]\<rparr> =
       (Inr (''id-0'', False),
        \<lparr>calls = [ListPipelines, Create p1_spec, ListPipelines,
                  Update (AList.update ''pipeline_id'' (JStr ''id-0'') p1_spec_y)],
         remote = [\<lparr>name = ''p1'', pipeline_id = ''id-0''\<rparr>]\<rparr>)"
    by code_simp
  from create_or_update_twice [OF store_facade_catalogue n1 m1 n2 m2 c1 c2] c1 c2
  show ?thesis by simp
qed

text \<open>
  As stated, claim C2 fails in its first flag: when a pipeline of the name is already in
  the catalogue, the first call updates it and reports False. Both calls return the same
  identifier, and neither reports a creation.
\<close>

theorem create_or_update_twice_counterexample:
  "create_or_update toy_loads store_facade (SpecDict p1_spec) []
      \<lparr>calls = [], remote = two_pipelines\<rparr> =
     (Inr (''id-1'', False),
      \<lparr>calls = [ListPipelines, Update (AList.update ''pipeline_id'' (JStr ''id-1'') p1_spec)],
       remote = two_pipelines\<rparr>)
   \<and> create_or_update toy_loads store_facade (SpecDict p1_spec_y) []
      \<lparr>calls = [ListPipelines, Update (AList.update ''pipeline_id'' (JStr ''id-1'') p1_spec)],
       remote = two_pipelines\<rparr> =
     (Inr (''id-1'', False),
      \<lparr>calls = [ListPipelines, Update (AList.update ''pipeline_id'' (JStr ''id-1'') p1_spec),
                ListPipelines, Update (AList.update ''pipeline_id'' (JStr ''id-1'') p1_spec_y)],
       remote = two_pipelines\<rparr>)
   \<and> catalogue_facade store_facade id"
proof -
  have a: "create_or_update toy_loads store_facade (SpecDict p1_spec) []
      \<lparr>calls = [], remote = two_pipelines\<rparr> =
     (Inr (''id-1'', False),
      \<lparr>calls = [ListPipelines, Update (AList.update ''pipeline_id'' (JStr ''id-1'') p1_spec)],
       remote = two_pipelines\<rparr>)"
    by code_simp
  have b: "create_or_update toy_loads store_facade (SpecDict p1_spec_y) []
      \<lparr>calls = [ListPipelines, Update (AList.update ''pipeline_id'' (JStr ''id-1'') p1_spec)],
       remote = two_pipelines\<rparr> =
     (Inr (''id-1'', False),
      \<lparr>calls = [ListPipelines, Update (AList.update ''pipeline_id'' (JStr ''id-1'') p1_spec),
                ListPipelines, Update (AList.update ''pipeline_id'' (JStr ''id-1'') p1_spec_y)],
       remote = two_pipelines\<rparr>)"
    by code_simp
  from a b store_facade_catalogue show ?thesis by simp
qed

section \<open>Properties of notebook export and import\<close>

subsection \<open>C8\<close>

text \<open>
  Claim C8. \<^verbatim>\<open>export_notebook\<close> and \<^verbatim>\<open>import_notebook\<close> return a boolean in every
  case: whatever exception leaves the \<^verbatim>\<open>try\<close> block, the result is False. The result is
  True exactly when every step went through: for the export a known format name, a
  response with non-empty content, the directory made, the content decoded and the file
  written; for the import the file read, the language absent, empty or known, and the
  client's import call returning. So an unknown format or language, an error of the client
  or of the file system, and an empty response all give False.
\<close>

theorem notebook_functions_return_flags:
  "(\<forall>e w'. export_notebook_try E workspace_path local_path format w = (Inl e, w')
        \<longrightarrow> export_notebook E workspace_path local_path format w = (False, w'))
   \<and> (fst (export_notebook E workspace_path local_path format w) \<longleftrightarrow>
        (\<exists>s1 c fs1 bytes fs2.
            str_upper E format \<in> set (export_formats E)
          \<and> workspace_export E workspace_path (str_upper E format) (remote w) = (Inr (Some c), s1)
          \<and> c \<noteq> []
          \<and> mkdir_parents E (path_parent E local_path) (files w) = (Inr (), fs1)
          \<and> b64decode E c = Inr bytes
          \<and> write_file E local_path bytes fs1 = (Inr (), fs2)))
   \<and> (\<forall>e w'. import_notebook_try E local_path workspace_path language overwrite w = (Inl e, w')
        \<longrightarrow> import_notebook E local_path workspace_path language overwrite w = (False, w'))
   \<and> (fst (import_notebook E local_path workspace_path language overwrite w) \<longleftrightarrow>
        (\<exists>bytes fs1 lg s1.
            read_file E local_path (files w) = (Inr bytes, fs1)
          \<and> language_kwarg E language = Inr lg
          \<and> workspace_import E workspace_path (b64encode E bytes) ''SOURCE'' overwrite lg (remote w)
              = (Inr (), s1)))"
proof (intro conjI)
  show "\<forall>e w'. export_notebook_try E workspace_path local_path format w = (Inl e, w')
        \<longrightarrow> export_notebook E workspace_path local_path format w = (False, w')"
    by (simp add: export_notebook_def)
  show "\<forall>e w'. import_notebook_try E local_path workspace_path language overwrite w = (Inl e, w')
        \<longrightarrow> import_notebook E local_path workspace_path language overwrite w = (False, w')"
    by (simp add: import_notebook_def)
  show "fst (export_notebook E workspace_path local_path format w) \<longleftrightarrow>
        (\<exists>s1 c fs1 bytes fs2.
            str_upper E format \<in> set (export_formats E)
          \<and> workspace_export E workspace_path (str_upper E format) (remote w) = (Inr (Some c), s1)
          \<and> c \<noteq> []
          \<and> mkdir_parents E (path_parent E local_path) (files w) = (Inr (), fs1)
          \<and> b64decode E c = Inr bytes
          \<and> write_file E local_path bytes fs1 = (Inr (), fs2))"
    by (auto simp add: export_notebook_def export_notebook_try_def Let_def
        split: prod.splits sum.splits option.splits if_splits)
  show "fst (import_notebook E local_path workspace_path language overwrite w) \<longleftrightarrow>
        (\<exists>bytes fs1 lg s1.
            read_file E local_path (files w) = (Inr bytes, fs1)
          \<and> language_kwarg E language = Inr lg
          \<and> workspace_import E workspace_path (b64encode E bytes) ''SOURCE'' overwrite lg (remote w)
              = (Inr (), s1))"
    by (auto simp add: import_notebook_def import_notebook_try_def Let_def
        split: prod.splits sum.splits option.splits if_splits)
qed

theorem notebook_functions_return_flags_witness:
  "export_notebook_try toy_env ''/nb'' ''out/a.py'' ''pdf'' toy_world
     = (Inl (key_error ''PDF''), toy_world)
   \<and> export_notebook toy_env ''/nb'' ''out/a.py'' ''pdf'' toy_world = (False, toy_world)
   \<and> import_notebook_try toy_env ''out/nb.py'' ''/new'' (Some ''cobol'') False toy_world
     = (Inl (key_error ''COBOL''), toy_world)
   \<and> import_notebook toy_env ''out/nb.py'' ''/new'' (Some ''cobol'') False toy_world
     = (False, toy_world)"
proof -
  have e: "export_notebook_try toy_env ''/nb'' ''out/a.py'' ''pdf'' toy_world
     = (Inl (key_error ''PDF''), toy_world)"
    by code_simp
  have i: "import_notebook_try toy_env ''out/nb.py'' ''/new'' (Some ''cobol'') False toy_world
     = (Inl (key_error ''COBOL''), toy_world)"
    by code_simp
  from notebook_functions_return_flags [where E = toy_env and workspace_path = "''/nb''"
      and local_path = "''out/a.py''" and format = "''pdf''" and w = toy_world] e
  have x: "export_notebook toy_env ''/nb'' ''out/a.py'' ''pdf'' toy_world = (False, toy_world)"
    by simp
  from notebook_functions_return_flags [where E = toy_env and workspace_path = "''/new''"
      and local_path = "''out/nb.py''" and language = "Some ''cobol''" and overwrite = False
      and w = toy_world] i
  have y: "import_notebook toy_env ''out/nb.py'' ''/new'' (Some ''cobol'') False toy_world
     = (False, toy_world)"
    by simp
  from e x i y show ?thesis by simp
qed

end
